theory Spec2Isabelle
  imports Main "HOL-Library.Word"
begin

unbundle bit_operations_syntax

section \<open>Go values used by main.go\<close>

text \<open>
  A Go \<^verbatim>\<open>string\<close> is a sequence of bytes; it is modelled by \<^typ>\<open>string\<close>, whose
  characters are bytes.  A \<^verbatim>\<open>byte\<close> that takes part in shifts is an \<^typ>\<open>8 word\<close>.
\<close>

type_synonym byte = "8 word"

subsection \<open>encoding/hex, as used by package bson\<close>

text \<open>
  \<^verbatim>\<open>const hextable = "0123456789abcdef"\<close>;
  \<^verbatim>\<open>Encode\<close> writes \<^verbatim>\<open>hextable[v>>4]\<close> and \<^verbatim>\<open>hextable[v&0x0f]\<close> for every byte \<^verbatim>\<open>v\<close>.
\<close>

definition hextable :: string where
  "hextable = ''0123456789abcdef''"

fun EncodeToString :: "byte list \<Rightarrow> string" where
  "EncodeToString [] = []"
| "EncodeToString (v # src) =
     hextable ! unat (drop_bit 4 v) # hextable ! unat (v AND 0x0f) # EncodeToString src"

text \<open>
  \<^verbatim>\<open>fromHexChar\<close> accepts the digits and the letters a-f in either case;
  \<^verbatim>\<open>DecodeString\<close> fails on any other byte and on a string of odd length, and writes
  \<^verbatim>\<open>(a << 4) | b\<close> for every pair.
\<close>

definition fromHexChar :: "char \<Rightarrow> byte option" where
  "fromHexChar c =
     (let n = (of_char c :: nat) in
      if 48 \<le> n \<and> n \<le> 57 then Some (of_nat (n - 48))
      else if 97 \<le> n \<and> n \<le> 102 then Some (of_nat (n - 97 + 10))
      else if 65 \<le> n \<and> n \<le> 70 then Some (of_nat (n - 65 + 10))
      else None)"

fun DecodeString :: "string \<Rightarrow> byte list option" where
  "DecodeString [] = Some []"
| "DecodeString [c] = None"
| "DecodeString (c # d # s) =
     (case fromHexChar c of
        None \<Rightarrow> None
      | Some a \<Rightarrow>
          (case fromHexChar d of
             None \<Rightarrow> None
           | Some b \<Rightarrow>
               (case DecodeString s of
                  None \<Rightarrow> None
                | Some dst \<Rightarrow> Some ((push_bit 4 a OR b) # dst))))"

subsection \<open>bson.ObjectId\<close>

text \<open>
  \<^verbatim>\<open>type ObjectId string\<close> holds the raw bytes of the key (twelve of them for every key
  made by \<^verbatim>\<open>NewObjectId\<close> or \<^verbatim>\<open>ObjectIdHex\<close>).
\<close>

type_synonym ObjectId = "byte list"

definition Hex :: "ObjectId \<Rightarrow> string" where
  "Hex ident = EncodeToString ident"

text \<open>\<^verbatim>\<open>IsObjectIdHex\<close>: \<^verbatim>\<open>len(s) == 24\<close> and \<^verbatim>\<open>hex.DecodeString(s)\<close> succeeds.\<close>

definition IsObjectIdHex :: "string \<Rightarrow> bool" where
  "IsObjectIdHex s = (if length s \<noteq> 24 then False else DecodeString s \<noteq> None)"

text \<open>
  \<^verbatim>\<open>ObjectIdHex\<close> panics unless the string decodes to twelve bytes; the panic is the
  value \<open>None\<close>.
\<close>

definition ObjectIdHex :: "string \<Rightarrow> ObjectId option" where
  "ObjectIdHex s =
     (case DecodeString s of
        None \<Rightarrow> None
      | Some d \<Rightarrow> if length d \<noteq> 12 then None else Some d)"

text \<open>
  \<^verbatim>\<open>NewObjectId\<close> fills twelve bytes: the Unix time as a big-endian \<^verbatim>\<open>uint32\<close>, three
  bytes of the machine id, two bytes of the process id, and the low three bytes of the
  process-wide counter after \<^verbatim>\<open>atomic.AddUint32(&objectIdCounter, 1)\<close>.  It returns the
  key and the new value of the counter.
\<close>

definition NewObjectId ::
  "int \<Rightarrow> byte \<times> byte \<times> byte \<Rightarrow> int \<Rightarrow> 32 word \<Rightarrow> ObjectId \<times> 32 word" where
  "NewObjectId unix machineId processId objectIdCounter =
     (let ts = (word_of_int unix :: 32 word);
          (m0, m1, m2) = machineId;
          i = objectIdCounter + 1
      in ([ucast (drop_bit 24 ts), ucast (drop_bit 16 ts), ucast (drop_bit 8 ts), ucast ts,
           m0, m1, m2,
           word_of_int (drop_bit 8 processId), word_of_int processId,
           ucast (drop_bit 16 i), ucast (drop_bit 8 i), ucast i], i))"

subsection \<open>strings.TrimSpace\<close>

text \<open>
  \<^verbatim>\<open>TrimSpace\<close> removes leading and trailing white space as \<^verbatim>\<open>unicode.IsSpace\<close> defines
  it.  On the bytes of a string these are the UTF-8 encodings of U+0009..U+000D, U+0020,
  U+0085, U+00A0, U+1680, U+2000..U+200A, U+2028, U+2029, U+202F, U+205F and U+3000.
\<close>

definition isSpaceSeq :: "nat list \<Rightarrow> bool" where
  "isSpaceSeq bs =
     (case bs of
        [b] \<Rightarrow> (9 \<le> b \<and> b \<le> 13) \<or> b = 32
      | [b0, b1] \<Rightarrow> b0 = 0xC2 \<and> (b1 = 0x85 \<or> b1 = 0xA0)
      | [b0, b1, b2] \<Rightarrow>
          (b0 = 0xE1 \<and> b1 = 0x9A \<and> b2 = 0x80)
          \<or> (b0 = 0xE2 \<and> b1 = 0x80 \<and>
               ((0x80 \<le> b2 \<and> b2 \<le> 0x8A) \<or> b2 = 0xA8 \<or> b2 = 0xA9 \<or> b2 = 0xAF))
          \<or> (b0 = 0xE2 \<and> b1 = 0x81 \<and> b2 = 0x9F)
          \<or> (b0 = 0xE3 \<and> b1 = 0x80 \<and> b2 = 0x80)
      | _ \<Rightarrow> False)"

definition leadingSpace :: "string \<Rightarrow> nat" where
  "leadingSpace s =
     (let bs = map of_char s in
      if 1 \<le> length bs \<and> isSpaceSeq (take 1 bs) then 1
      else if 2 \<le> length bs \<and> isSpaceSeq (take 2 bs) then 2
      else if 3 \<le> length bs \<and> isSpaceSeq (take 3 bs) then 3
      else 0)"

definition trailingSpace :: "string \<Rightarrow> nat" where
  "trailingSpace s =
     (let bs = map of_char s; n = length bs in
      if 1 \<le> n \<and> isSpaceSeq (drop (n - 1) bs) then 1
      else if 2 \<le> n \<and> isSpaceSeq (drop (n - 2) bs) then 2
      else if 3 \<le> n \<and> isSpaceSeq (drop (n - 3) bs) then 3
      else 0)"

function TrimLeft :: "string \<Rightarrow> string" where
  "TrimLeft s = (if leadingSpace s = 0 then s else TrimLeft (drop (leadingSpace s) s))"
  by pat_completeness auto
termination
  by (relation "measure length") (auto simp: leadingSpace_def Let_def split: if_splits)

function TrimRight :: "string \<Rightarrow> string" where
  "TrimRight s =
     (if trailingSpace s = 0 then s else TrimRight (take (length s - trailingSpace s) s))"
  by pat_completeness auto
termination
  by (relation "measure length") (auto simp: trailingSpace_def Let_def split: if_splits)

declare TrimLeft.simps [simp del] TrimRight.simps [simp del]

definition TrimSpace :: "string \<Rightarrow> string" where
  "TrimSpace s = TrimRight (TrimLeft s)"

subsection \<open>time.Time\<close>

text \<open>
  A \<^verbatim>\<open>time.Time\<close> is modelled by the calendar fields that \<^verbatim>\<open>Format\<close> and
  \<^verbatim>\<open>MarshalJSON\<close> read from it: \<^verbatim>\<open>Year\<close>, \<^verbatim>\<open>Month\<close>, \<^verbatim>\<open>Day\<close>, \<^verbatim>\<open>Hour\<close>, \<^verbatim>\<open>Minute\<close>,
  \<^verbatim>\<open>Second\<close>, \<^verbatim>\<open>Nanosecond\<close> and the zone offset in seconds east of UTC.
\<close>

record Time =
  Year :: int
  Month :: nat
  Day :: nat
  Hour :: nat
  Minute :: nat
  Second :: nat
  Nanosecond :: nat
  ZoneOffset :: int

text \<open>The ranges that the accessors of every \<^verbatim>\<open>time.Time\<close> respect.\<close>

definition validTime :: "Time \<Rightarrow> bool" where
  "validTime t =
     (1 \<le> Month t \<and> Month t \<le> 12 \<and> 1 \<le> Day t \<and> Day t \<le> 31 \<and>
      Hour t < 24 \<and> Minute t < 60 \<and> Second t < 60 \<and> Nanosecond t < 1000000000)"

fun digits :: "nat \<Rightarrow> string" where
  "digits n =
     (if n < 10 then [char_of (48 + n)]
      else digits (n div 10) @ [char_of (48 + n mod 10)])"

declare digits.simps [simp del]

text \<open>
  \<^verbatim>\<open>appendInt(b, x, width)\<close>: a minus sign for a negative \<^verbatim>\<open>x\<close>, then the decimal
  digits, padded with leading zeros to \<^verbatim>\<open>width\<close>.
\<close>

definition appendInt :: "int \<Rightarrow> nat \<Rightarrow> string" where
  "appendInt x width =
     (let ds = digits (nat \<bar>x\<bar>)
      in (if x < 0 then [CHR ''-''] else []) @ replicate (width - length ds) (CHR ''0'') @ ds)"

text \<open>\<^verbatim>\<open>t.Format("2006-01-02 15:04:05")\<close>\<close>

definition Format :: "Time \<Rightarrow> string" where
  "Format t =
     appendInt (Year t) 4 @ ''-'' @ appendInt (int (Month t)) 2 @ ''-'' @
     appendInt (int (Day t)) 2 @ '' '' @ appendInt (int (Hour t)) 2 @ '':'' @
     appendInt (int (Minute t)) 2 @ '':'' @ appendInt (int (Second t)) 2"

text \<open>
  \<^verbatim>\<open>Time.MarshalJSON\<close> writes the layout RFC3339Nano,
  \<^verbatim>\<open>"2006-01-02T15:04:05.999999999Z07:00"\<close>: the fraction loses its trailing zeros and
  is left out when it is zero, the zone is \<^verbatim>\<open>Z\<close> for UTC and a signed \<^verbatim>\<open>hh:mm\<close>
  otherwise.  A year outside 0..9999 is an error (\<open>None\<close>).
\<close>

definition dropTrailingZeros :: "string \<Rightarrow> string" where
  "dropTrailingZeros s = rev (dropWhile (\<lambda>c. c = CHR ''0'') (rev s))"

definition fraction :: "nat \<Rightarrow> string" where
  "fraction ns =
     (if ns = 0 then []
      else CHR ''.'' # dropTrailingZeros (appendInt (int ns) 9))"

definition zone :: "int \<Rightarrow> string" where
  "zone offset =
     (if offset = 0 then ''Z''
      else let z = sgn offset * (\<bar>offset\<bar> div 60)
           in (if z < 0 then ''-'' else ''+'') @
              appendInt (\<bar>z\<bar> div 60) 2 @ '':'' @ appendInt (\<bar>z\<bar> mod 60) 2)"

definition MarshalJSON_Time :: "Time \<Rightarrow> string option" where
  "MarshalJSON_Time t =
     (if Year t < 0 \<or> 10000 \<le> Year t then None
      else Some
        (appendInt (Year t) 4 @ ''-'' @ appendInt (int (Month t)) 2 @ ''-'' @
         appendInt (int (Day t)) 2 @ ''T'' @ appendInt (int (Hour t)) 2 @ '':'' @
         appendInt (int (Minute t)) 2 @ '':'' @ appendInt (int (Second t)) 2 @
         fraction (Nanosecond t) @ zone (ZoneOffset t)))"

text \<open>
  The shape \<^verbatim>\<open>YYYY-MM-DD HH:MM:SS\<close>: nineteen bytes, a digit wherever the pattern has
  \<^verbatim>\<open>d\<close> and the pattern's own byte elsewhere.
\<close>

definition isDigit :: "char \<Rightarrow> bool" where
  "isDigit c = (48 \<le> (of_char c :: nat) \<and> (of_char c :: nat) \<le> 57)"

definition matchesLayout :: "string \<Rightarrow> bool" where
  "matchesLayout s =
     list_all2 (\<lambda>p c. if p = CHR ''d'' then isDigit c else c = p) ''dddd-dd-dd dd:dd:dd'' s"

section \<open>The data model of main.go\<close>

text \<open>
  \<^verbatim>\<open>todoModel\<close> is the stored record, \<^verbatim>\<open>todo\<close> the record exchanged as JSON (its
  fields carry the tags \<^verbatim>\<open>id\<close>, \<^verbatim>\<open>title\<close>, \<^verbatim>\<open>completed\<close>, \<^verbatim>\<open>createdAt\<close>).
\<close>

record todoModel =
  ID :: ObjectId
  Title :: string
  Completed :: bool
  CreatedAt :: Time

record todo =
  todo_ID :: string
  todo_Title :: string
  todo_Completed :: bool
  todo_CreatedAt :: string

text \<open>
  Go errors.  \<open>ErrNotFound\<close> is \<^verbatim>\<open>mgo.ErrNotFound\<close>, \<open>ErrDuplicateKey\<close> the server's
  duplicate-key write error, \<open>ErrOther\<close> any other error value (a JSON decoding error,
  a lost connection).
\<close>

datatype error = ErrNotFound | ErrDuplicateKey | ErrOther string

text \<open>A Go slice is \<^verbatim>\<open>nil\<close> or holds a sequence; \<^verbatim>\<open>append\<close> works on both.\<close>

datatype 'a slice = NilSlice | Slice "'a list"

fun append_slice :: "'a slice \<Rightarrow> 'a \<Rightarrow> 'a slice" where
  "append_slice NilSlice x = Slice [x]"
| "append_slice (Slice xs) x = Slice (xs @ [x])"

text \<open>
  What a handler passes to \<^verbatim>\<open>rnd.JSON(w, status, v)\<close>: the status and the value \<^verbatim>\<open>v\<close>,
  which is a \<^verbatim>\<open>renderer.M\<close> (a map from keys to values, written here in the order of the
  source) or an error.
\<close>

datatype field =
    FString string
  | FError error
  | FTodoList "todo slice"
  | FTodoModel todoModel

datatype body = M "(string \<times> field) list" | E error

record response =
  status :: nat
  payload :: body

abbreviation StatusProcessing :: nat where "StatusProcessing \<equiv> 102"
abbreviation StatusOK :: nat where "StatusOK \<equiv> 200"
abbreviation StatusCreated :: nat where "StatusCreated \<equiv> 201"
abbreviation StatusBadRequest :: nat where "StatusBadRequest \<equiv> 400"

subsection \<open>The collection\<close>

text \<open>
  The state that the handlers share: the documents of the collection \<^verbatim>\<open>todos\<close> in the
  order the server returns them, the operations sent to the collection so far, and bson's
  \<^verbatim>\<open>objectIdCounter\<close>.
\<close>

datatype storeCall =
    CallFindAll
  | CallInsert todoModel
  | CallRemoveId ObjectId
  | CallUpdate ObjectId string bool

record state =
  docs :: "todoModel list"
  calls :: "storeCall list"
  objectIdCounter :: "32 word"

text \<open>
  What a handler reads from outside: the clock (\<^verbatim>\<open>time.Now()\<close> in \<^verbatim>\<open>createTodo\<close>, and
  \<^verbatim>\<open>time.Now().Unix()\<close> inside \<^verbatim>\<open>NewObjectId\<close>), bson's machine id and process id, and
  whether the store fails the operation for a reason of its own (\<open>fault\<close>).
\<close>

record env =
  now :: Time
  unixNow :: int
  machineId :: "byte \<times> byte \<times> byte"
  processId :: int
  fault :: "error option"

text \<open>
  The operations of \<^verbatim>\<open>*mgo.Collection\<close> that main.go calls, on a session in safe mode
  (the mode \<^verbatim>\<open>mgo.Dial\<close> returns and \<^verbatim>\<open>init\<close> does not change).  The driver is
  not part of main.go; the operations follow its documentation, which says of
  \<^verbatim>\<open>Update\<close> and of \<^verbatim>\<open>Remove\<close> (\<^verbatim>\<open>RemoveId\<close> is \<^verbatim>\<open>Remove(bson.D{{"_id", id}})\<close>):
  "If the session is in safe mode (see SetSafe) a ErrNotFound error is returned if a
  document isn't found".  A fault fails the operation before it has any effect.

  \<^verbatim>\<open>Find(bson.M{}).All(&todos)\<close> yields every document.
\<close>

definition Find_All :: "env \<Rightarrow> state \<Rightarrow> (error + todoModel list) \<times> state" where
  "Find_All e st =
     (let st' = st\<lparr>calls := calls st @ [CallFindAll]\<rparr> in
      case fault e of
        Some err \<Rightarrow> (Inl err, st')
      | None \<Rightarrow> (Inr (docs st'), st'))"

text \<open>
  BSON keeps a time in milliseconds, so the stored \<^verbatim>\<open>createdAt\<close> loses what is below a
  millisecond.
\<close>

definition bsonTime :: "Time \<Rightarrow> Time" where
  "bsonTime t = t\<lparr>Nanosecond := Nanosecond t div 1000000 * 1000000\<rparr>"

text \<open>\<^verbatim>\<open>Insert(doc)\<close>: the key \<^verbatim>\<open>_id\<close> is unique in a collection.\<close>

definition Insert :: "env \<Rightarrow> todoModel \<Rightarrow> state \<Rightarrow> error option \<times> state" where
  "Insert e doc st =
     (let st' = st\<lparr>calls := calls st @ [CallInsert doc]\<rparr> in
      case fault e of
        Some err \<Rightarrow> (Some err, st')
      | None \<Rightarrow>
          if \<exists>d \<in> set (docs st'). ID d = ID doc then (Some ErrDuplicateKey, st')
          else (None, st'\<lparr>docs := docs st' @ [doc\<lparr>CreatedAt := bsonTime (CreatedAt doc)\<rparr>]\<rparr>))"

text \<open>
  \<^verbatim>\<open>RemoveId(id)\<close> removes the document whose \<^verbatim>\<open>_id\<close> is \<^verbatim>\<open>id\<close>, and returns
  \<^verbatim>\<open>ErrNotFound\<close> when there is none.
\<close>

fun removeFirst :: "ObjectId \<Rightarrow> todoModel list \<Rightarrow> todoModel list" where
  "removeFirst ident [] = []"
| "removeFirst ident (d # ds) = (if ID d = ident then ds else d # removeFirst ident ds)"

definition RemoveId :: "env \<Rightarrow> ObjectId \<Rightarrow> state \<Rightarrow> error option \<times> state" where
  "RemoveId e ident st =
     (let st' = st\<lparr>calls := calls st @ [CallRemoveId ident]\<rparr> in
      case fault e of
        Some err \<Rightarrow> (Some err, st')
      | None \<Rightarrow>
          if \<exists>d \<in> set (docs st'). ID d = ident
          then (None, st'\<lparr>docs := removeFirst ident (docs st')\<rparr>)
          else (Some ErrNotFound, st'))"

text \<open>
  \<^verbatim>\<open>Update(bson.M{"_id": id}, bson.M{"$set": bson.M{"title": .., "completed": ..}})\<close>
  sets the two fields of the document whose \<^verbatim>\<open>_id\<close> is \<^verbatim>\<open>id\<close>, and returns
  \<^verbatim>\<open>ErrNotFound\<close> when there is none.
\<close>

fun setFirst :: "ObjectId \<Rightarrow> string \<Rightarrow> bool \<Rightarrow> todoModel list \<Rightarrow> todoModel list" where
  "setFirst ident ttl c [] = []"
| "setFirst ident ttl c (d # ds) =
     (if ID d = ident then d\<lparr>Title := ttl, Completed := c\<rparr> # ds
      else d # setFirst ident ttl c ds)"

definition Update :: "env \<Rightarrow> ObjectId \<Rightarrow> string \<Rightarrow> bool \<Rightarrow> state \<Rightarrow> error option \<times> state" where
  "Update e ident ttl c st =
     (let st' = st\<lparr>calls := calls st @ [CallUpdate ident ttl c]\<rparr> in
      case fault e of
        Some err \<Rightarrow> (Some err, st')
      | None \<Rightarrow>
          if \<exists>d \<in> set (docs st'). ID d = ident
          then (None, st'\<lparr>docs := setFirst ident ttl c (docs st')\<rparr>)
          else (Some ErrNotFound, st'))"

section \<open>The handlers\<close>

text \<open>
  A request, as far as the handlers read it: the value of \<^verbatim>\<open>chi.URLParam(r, "id")\<close> and
  the result of \<^verbatim>\<open>json.NewDecoder(r.Body).Decode(&t)\<close> on a zero \<^verbatim>\<open>todo\<close>, which is an
  error or the decoded record.
\<close>

record request =
  URLParam_id :: string
  Decode :: "error + todo"

text \<open>
  A handler returns after at most one call of \<^verbatim>\<open>rnd.JSON\<close> (\<open>None\<close>: it made none), or
  panics.
\<close>

datatype outcome = Panicked | Returned "response option" state

text \<open>The loop of \<^verbatim>\<open>getAllTodo\<close> over \<^verbatim>\<open>todos\<close>.\<close>

fun range_todos :: "todoModel list \<Rightarrow> todo slice \<Rightarrow> todo slice" where
  "range_todos [] todoList = todoList"
| "range_todos (t # todos) todoList =
     range_todos todos
       (append_slice todoList
          \<lparr>todo_ID = Hex (ID t),
           todo_Title = Title t,
           todo_Completed = Completed t,
           todo_CreatedAt = Format (CreatedAt t)\<rparr>)"

definition getAllTodo :: "env \<Rightarrow> state \<Rightarrow> outcome" where
  "getAllTodo e st =
     (case Find_All e st of
        (Inl err, st') \<Rightarrow>
          Returned (Some \<lparr>status = StatusBadRequest,
                          payload = M [(''message'', FString ''Failed to get todos''),
                                       (''error'', FError err)]\<rparr>) st'
      | (Inr todos, st') \<Rightarrow>
          (let todoList = range_todos todos (Slice [])
           in Returned (Some \<lparr>status = StatusOK,
                               payload = M [(''data'', FTodoList todoList)]\<rparr>) st'))"

definition createTodo :: "env \<Rightarrow> state \<Rightarrow> request \<Rightarrow> outcome" where
  "createTodo e st r =
     (case Decode r of
        Inl err \<Rightarrow> Returned (Some \<lparr>status = StatusProcessing, payload = E err\<rparr>) st
      | Inr t \<Rightarrow>
          if todo_Title t = [] then
            Returned (Some \<lparr>status = StatusBadRequest,
                            payload = M [(''message'', FString ''Title is required'')]\<rparr>) st
          else
            (let (ident, counter) =
                   NewObjectId (unixNow e) (machineId e) (processId e) (objectIdCounter st);
                 st1 = st\<lparr>objectIdCounter := counter\<rparr>;
                 todo = \<lparr>ID = ident, Title = todo_Title t, Completed = False,
                         CreatedAt = now e\<rparr>
             in case Insert e todo st1 of
                  (Some err, st2) \<Rightarrow>
                    Returned (Some \<lparr>status = StatusBadRequest,
                                    payload = M [(''message'', FString ''Failed to create todo''),
                                                 (''error'', FError err)]\<rparr>) st2
                | (None, st2) \<Rightarrow>
                    Returned (Some \<lparr>status = StatusCreated,
                                    payload = M [(''message'', FString ''Todo created successfully''),
                                                 (''data'', FTodoModel todo)]\<rparr>) st2))"

definition deleteTodo :: "env \<Rightarrow> state \<Rightarrow> request \<Rightarrow> outcome" where
  "deleteTodo e st r =
     (let ident = TrimSpace (URLParam_id r) in
      if \<not> IsObjectIdHex ident then
        Returned (Some \<lparr>status = StatusBadRequest,
                        payload = M [(''message'', FString ''Invalid id'')]\<rparr>) st
      else
        (case ObjectIdHex ident of
           None \<Rightarrow> Panicked
         | Some key \<Rightarrow>
             (case RemoveId e key st of
                (Some err, st') \<Rightarrow>
                  Returned (Some \<lparr>status = StatusBadRequest,
                                  payload = M [(''message'', FString ''Failed to delete todo''),
                                               (''error'', FError err)]\<rparr>) st'
              | (None, st') \<Rightarrow>
                  Returned (Some \<lparr>status = StatusOK,
                                  payload = M [(''message'', FString ''Todo deleted successfully'')]\<rparr>)
                    st')))"

definition updateTodo :: "env \<Rightarrow> state \<Rightarrow> request \<Rightarrow> outcome" where
  "updateTodo e st r =
     (let ident = TrimSpace (URLParam_id r) in
      if \<not> IsObjectIdHex ident then
        Returned (Some \<lparr>status = StatusBadRequest,
                        payload = M [(''message'', FString ''Invalid id'')]\<rparr>) st
      else
        (case Decode r of
           Inl err \<Rightarrow> Returned (Some \<lparr>status = StatusProcessing, payload = E err\<rparr>) st
         | Inr t \<Rightarrow>
             if todo_Title t = [] then
               Returned (Some \<lparr>status = StatusBadRequest,
                               payload = M [(''message'', FString ''Title is required'')]\<rparr>) st
             else
               (case ObjectIdHex ident of
                  None \<Rightarrow> Panicked
                | Some key \<Rightarrow>
                    (case Update e key (todo_Title t) (todo_Completed t) st of
                       (Some err, st') \<Rightarrow>
                         Returned (Some \<lparr>status = StatusBadRequest,
                                         payload = M [(''message'', FString ''Failed to update todo''),
                                                      (''error'', FError err)]\<rparr>) st'
                     | (None, st') \<Rightarrow> Returned None st'))))"

subsection \<open>encoding/json on the values the handlers send\<close>

text \<open>
  \<^verbatim>\<open>rnd.JSON\<close> encodes its argument with encoding/json.  A \<^verbatim>\<open>todo\<close> is written with
  its tags; a \<^verbatim>\<open>todoModel\<close> has no JSON tags, so its fields are written under their Go
  names, the \<^verbatim>\<open>bson.ObjectId\<close> by its \<^verbatim>\<open>MarshalJSON\<close> (the hexadecimal string) and the
  \<^verbatim>\<open>time.Time\<close> by its own.  A \<^verbatim>\<open>nil\<close> slice is \<^verbatim>\<open>null\<close>, any other slice an array.
  How an error value is written depends on its dynamic type; it is kept as it is.
  \<open>None\<close>: the encoding fails.
\<close>

datatype json =
    JNull
  | JBool bool
  | JString string
  | JArray "json list"
  | JObject "(string \<times> json) list"
  | JError error

definition marshal_todo :: "todo \<Rightarrow> json" where
  "marshal_todo t =
     JObject [(''id'', JString (todo_ID t)),
              (''title'', JString (todo_Title t)),
              (''completed'', JBool (todo_Completed t)),
              (''createdAt'', JString (todo_CreatedAt t))]"

definition marshal_todoModel :: "todoModel \<Rightarrow> json option" where
  "marshal_todoModel m =
     (case MarshalJSON_Time (CreatedAt m) of
        None \<Rightarrow> None
      | Some s \<Rightarrow>
          Some (JObject [(''ID'', JString (EncodeToString (ID m))),
                         (''Title'', JString (Title m)),
                         (''Completed'', JBool (Completed m)),
                         (''CreatedAt'', JString s)]))"

fun marshal_field :: "field \<Rightarrow> json option" where
  "marshal_field (FString s) = Some (JString s)"
| "marshal_field (FError err) = Some (JError err)"
| "marshal_field (FTodoList NilSlice) = Some JNull"
| "marshal_field (FTodoList (Slice ts)) = Some (JArray (map marshal_todo ts))"
| "marshal_field (FTodoModel m) = marshal_todoModel m"

fun marshal_M :: "(string \<times> field) list \<Rightarrow> (string \<times> json) list option" where
  "marshal_M [] = Some []"
| "marshal_M ((k, v) # kvs) =
     (case marshal_field v of
        None \<Rightarrow> None
      | Some j \<Rightarrow> (case marshal_M kvs of None \<Rightarrow> None | Some js \<Rightarrow> Some ((k, j) # js)))"

fun marshal :: "body \<Rightarrow> json option" where
  "marshal (M kvs) = map_option JObject (marshal_M kvs)"
| "marshal (E err) = Some (JError err)"

text \<open>The member of a JSON object under a key.\<close>

fun member :: "json \<Rightarrow> string \<Rightarrow> json option" where
  "member (JObject kvs) k = map_of kvs k"
| "member _ k = None"

section \<open>Example values\<close>

text \<open>Concrete inputs on which the theorems below are evaluated.\<close>

definition example_time :: Time where
  "example_time = \<lparr>Year = 2026, Month = 10, Day = 31, Hour = 9, Minute = 5, Second = 0,
                    Nanosecond = 123456789, ZoneOffset = 19800\<rparr>"

definition example_env :: env where
  "example_env = \<lparr>now = example_time, unixNow = 1793404800, machineId = (1, 2, 3),
                   processId = 4660, fault = None\<rparr>"

definition example_key :: ObjectId where
  "example_key = [0x6a, 0xe5, 0x2f, 0x80, 1, 2, 3, 0x12, 0x34, 0, 0, 0x2a]"

definition example_doc :: todoModel where
  "example_doc = \<lparr>ID = example_key, Title = ''buy milk'', Completed = False,
                   CreatedAt = bsonTime example_time\<rparr>"

definition example_state :: state where
  "example_state = \<lparr>docs = [example_doc], calls = [], objectIdCounter = 42\<rparr>"

definition empty_state :: state where
  "empty_state = \<lparr>docs = [], calls = [], objectIdCounter = 41\<rparr>"

section \<open>Properties\<close>

lemma length_EncodeToString: "length (EncodeToString src) = 2 * length src"
  by (induction src) simp_all

subsection \<open>Keys and their hexadecimal form\<close>

lemma fromHexChar_hextable:
  assumes "n < 16"
  shows "fromHexChar (hextable ! n) = Some (of_nat n)"
proof -
  from assms have "n \<in> {0, 1, 2, 3, 4, 5, 6, 7, 8, 9, 10, 11, 12, 13, 14, 15}"
    by (simp; arith)
  then show ?thesis
    by (auto simp: hextable_def fromHexChar_def)
qed

lemma unat_high_nibble: "unat (drop_bit 4 (v :: byte)) < 16"
proof -
  have "unat v < 256"
    using unsigned_less [of v, where 'a = nat] by simp
  then show ?thesis
    by (simp add: drop_bit_eq_div unat_div)
qed

lemma unat_low_nibble: "unat ((v :: byte) AND 0x0f) < 16"
proof -
  have "unat (v AND 0x0f) \<le> unat (0x0f :: byte)"
    by (rule word_and_le1 [THEN word_le_nat_alt [THEN iffD1]])
  then show ?thesis by simp
qed

lemma nibbles_join: "push_bit 4 (drop_bit 4 v) OR (v AND 0x0f) = (v :: byte)"
proof -
  have m: "(0x0f :: byte) = mask 4"
    by (simp add: mask_eq_exp_minus_1)
  show ?thesis
    unfolding m by (rule bit_word_eqI) (auto simp: bit_simps)
qed

lemma DecodeString_EncodeToString: "DecodeString (EncodeToString src) = Some src"
proof (induction src)
  case Nil
  show ?case by simp
next
  case (Cons v src)
  have hi: "fromHexChar (hextable ! unat (drop_bit 4 v)) = Some (drop_bit 4 v)"
    using fromHexChar_hextable [OF unat_high_nibble [of v]] by simp
  have lo: "fromHexChar (hextable ! unat (v AND 0x0f)) = Some (v AND 0x0f)"
    using fromHexChar_hextable [OF unat_low_nibble [of v]] by simp
  show ?case
    by (simp add: hi lo Cons.IH nibbles_join)
qed

lemma length_DecodeString: "DecodeString s = Some d \<Longrightarrow> length s = 2 * length d"
  by (induction s arbitrary: d rule: DecodeString.induct) (auto split: option.splits)

lemma IsObjectIdHex_Hex: "length ident = 12 \<Longrightarrow> IsObjectIdHex (Hex ident)"
  by (simp add: IsObjectIdHex_def Hex_def length_EncodeToString DecodeString_EncodeToString)

lemma ObjectIdHex_Hex: "length ident = 12 \<Longrightarrow> ObjectIdHex (Hex ident) = Some ident"
  by (simp add: ObjectIdHex_def Hex_def DecodeString_EncodeToString)

text \<open>After \<^verbatim>\<open>IsObjectIdHex\<close> has accepted a string, \<^verbatim>\<open>ObjectIdHex\<close> does not panic.\<close>

lemma IsObjectIdHex_ObjectIdHex:
  assumes "IsObjectIdHex s"
  shows "\<exists>ident. ObjectIdHex s = Some ident \<and> length ident = 12"
proof -
  from assms obtain d where d: "DecodeString s = Some d" and l: "length s = 24"
    by (auto simp: IsObjectIdHex_def split: if_splits)
  from length_DecodeString [OF d] l have "length d = 12" by simp
  with d show ?thesis by (simp add: ObjectIdHex_def)
qed

lemma length_NewObjectId: "length (fst (NewObjectId u m p c)) = 12"
  by (cases m) (simp add: NewObjectId_def Let_def)

subsection \<open>The two renderings of a time\<close>

lemma isDigit_char_of: "(n::nat) < 10 \<Longrightarrow> isDigit (char_of (48 + n))"
  by (simp add: isDigit_def) 

lemma digits_all: "list_all isDigit (digits n)"
proof (induction n rule: digits.induct)
  case (1 n)
  show ?case
  proof (cases "n < 10")
    case True
    then show ?thesis by (subst digits.simps) (simp add: isDigit_char_of)
  next
    case False
    have "isDigit (char_of (48 + n mod 10))" by (rule isDigit_char_of) simp
    with False 1 show ?thesis by (subst digits.simps) simp
  qed
qed

lemma length_digits: "n < 10 ^ k \<Longrightarrow> 0 < k \<Longrightarrow> length (digits n) \<le> k"
proof (induction n arbitrary: k rule: digits.induct)
  case (1 n)
  show ?case
  proof (cases "n < 10")
    case True
    with 1(3) show ?thesis by (subst digits.simps) simp
  next
    case False
    with 1(2) have k2: "1 < k" by (cases k; cases "k - 1") auto
    then obtain j where j: "k = Suc j" "0 < j" by (cases k) auto
    with 1(2) have "n div 10 < 10 ^ j" by (simp add: less_mult_imp_div_less mult.commute)
    from 1(1) [OF False this j(2)] have "length (digits (n div 10)) \<le> j" .
    with False j show ?thesis by (subst digits.simps) simp
  qed
qed

lemma appendInt_nonneg:
  assumes "0 \<le> x" "x < 10 ^ w" "0 < w"
  shows "length (appendInt x w) = w \<and> list_all isDigit (appendInt x w)"
proof -
  have "nat \<bar>x\<bar> < 10 ^ w" using assms by (simp add: nat_less_iff)
  from length_digits [OF this assms(3)] have "length (digits (nat \<bar>x\<bar>)) \<le> w" .
  moreover have "isDigit (CHR ''0'')" by (simp add: isDigit_def)
  ultimately show ?thesis using assms(1) digits_all [of "nat \<bar>x\<bar>"]
    by (auto simp: appendInt_def Let_def list_all_iff)
qed

lemma two_digits:
  assumes "0 \<le> x" "x < 100"
  shows "\<exists>a b. appendInt x 2 = [a, b] \<and> isDigit a \<and> isDigit b"
proof -
  from appendInt_nonneg [of x 2] assms
  have l: "length (appendInt x 2) = 2" and d: "list_all isDigit (appendInt x 2)" by simp_all
  from l obtain a b where "appendInt x 2 = [a, b]"
    by (auto simp: length_Suc_conv numeral_2_eq_2)
  with d show ?thesis by simp
qed

lemma four_digits:
  assumes "0 \<le> x" "x < 10000"
  shows "\<exists>a b c d. appendInt x 4 = [a, b, c, d] \<and> isDigit a \<and> isDigit b \<and> isDigit c \<and> isDigit d"
proof -
  from appendInt_nonneg [of x 4] assms
  have l: "length (appendInt x 4) = 4" and d: "list_all isDigit (appendInt x 4)" by simp_all
  from l obtain a b c d where "appendInt x 4 = [a, b, c, d]"
    by (auto simp: length_Suc_conv numeral_eq_Suc)
  with d show ?thesis by simp
qed

lemma Format_matchesLayout:
  assumes "validTime t" "0 \<le> Year t" "Year t < 10000"
  shows "matchesLayout (Format t)"
proof -
  from four_digits [OF assms(2,3)] obtain y1 y2 y3 y4
    where y: "appendInt (Year t) 4 = [y1, y2, y3, y4]"
      "isDigit y1" "isDigit y2" "isDigit y3" "isDigit y4" by blast
  from assms(1) two_digits [of "int (Month t)"] obtain m1 m2
    where m: "appendInt (int (Month t)) 2 = [m1, m2]" "isDigit m1" "isDigit m2"
    by (auto simp: validTime_def)
  from assms(1) two_digits [of "int (Day t)"] obtain d1 d2
    where d: "appendInt (int (Day t)) 2 = [d1, d2]" "isDigit d1" "isDigit d2"
    by (auto simp: validTime_def)
  from assms(1) two_digits [of "int (Hour t)"] obtain h1 h2
    where h: "appendInt (int (Hour t)) 2 = [h1, h2]" "isDigit h1" "isDigit h2"
    by (auto simp: validTime_def)
  from assms(1) two_digits [of "int (Minute t)"] obtain n1 n2
    where n: "appendInt (int (Minute t)) 2 = [n1, n2]" "isDigit n1" "isDigit n2"
    by (auto simp: validTime_def)
  from assms(1) two_digits [of "int (Second t)"] obtain s1 s2
    where s: "appendInt (int (Second t)) 2 = [s1, s2]" "isDigit s1" "isDigit s2"
    by (auto simp: validTime_def)
  show ?thesis
    by (simp add: matchesLayout_def Format_def y m d h n s)
qed

lemma MarshalJSON_Time_not_layout:
  assumes "validTime t" "MarshalJSON_Time t = Some s"
  shows "\<not> matchesLayout s"
proof -
  from assms(2) have yr: "0 \<le> Year t" "Year t < 10000"
    by (auto simp: MarshalJSON_Time_def split: if_splits)
  from four_digits [OF yr] obtain y1 y2 y3 y4
    where y: "appendInt (Year t) 4 = [y1, y2, y3, y4]" by blast
  from assms(1) two_digits [of "int (Month t)"] obtain m1 m2
    where m: "appendInt (int (Month t)) 2 = [m1, m2]"
    by (auto simp: validTime_def)
  from assms(1) two_digits [of "int (Day t)"] obtain d1 d2
    where d: "appendInt (int (Day t)) 2 = [d1, d2]"
    by (auto simp: validTime_def)
  from assms(2) yr have "\<exists>rest. s = y1 # y2 # y3 # y4 # CHR ''-'' # m1 # m2 # CHR ''-'' # d1 # d2 # CHR ''T'' # rest"
    by (auto simp: MarshalJSON_Time_def y m d)
  then show ?thesis
    by (auto simp: matchesLayout_def)
qed

subsection \<open>What an update leaves alone\<close>

lemma setFirst_frame:
  "list_all2 (\<lambda>d d'. ID d' = ID d \<and> CreatedAt d' = CreatedAt d \<and>
                (d' = d \<or> ID d = key \<and> d' = d\<lparr>Title := ttl, Completed := c\<rparr>))
     ds (setFirst key ttl c ds)"
  by (induction ds) (simp_all add: list_all2_refl)

subsection \<open>The loop of getAllTodo\<close>

lemma range_todos_Slice:
  "range_todos todos (Slice acc) =
     Slice (acc @ map (\<lambda>t. \<lparr>todo_ID = Hex (ID t), todo_Title = Title t,
                              todo_Completed = Completed t,
                              todo_CreatedAt = Format (CreatedAt t)\<rparr>) todos)"
  by (induction todos arbitrary: acc) simp_all

subsection \<open>The handlers do not panic\<close>

text \<open>
  \<^verbatim>\<open>ObjectIdHex\<close> is called only on a string that \<^verbatim>\<open>IsObjectIdHex\<close> has accepted,
  so every handler returns.
\<close>

lemma getAllTodo_returns: "\<exists>rsp st'. getAllTodo e st = Returned rsp st'"
  by (simp add: getAllTodo_def Find_All_def Let_def split: option.splits)

lemma createTodo_returns: "\<exists>rsp st'. createTodo e st r = Returned rsp st'"
  by (auto simp: createTodo_def Insert_def Let_def
      split: sum.splits prod.splits option.splits)

lemma deleteTodo_returns: "\<exists>rsp st'. deleteTodo e st r = Returned rsp st'"
proof (cases "IsObjectIdHex (TrimSpace (URLParam_id r))")
  case True
  from IsObjectIdHex_ObjectIdHex [OF True] obtain key
    where "ObjectIdHex (TrimSpace (URLParam_id r)) = Some key" by blast
  with True show ?thesis
    by (auto simp: deleteTodo_def RemoveId_def Let_def split: option.splits)
next
  case False
  then show ?thesis by (simp add: deleteTodo_def)
qed

lemma updateTodo_returns: "\<exists>rsp st'. updateTodo e st r = Returned rsp st'"
proof (cases "IsObjectIdHex (TrimSpace (URLParam_id r))")
  case True
  from IsObjectIdHex_ObjectIdHex [OF True] obtain key
    where "ObjectIdHex (TrimSpace (URLParam_id r)) = Some key" by blast
  with True show ?thesis
    by (auto simp: updateTodo_def Update_def Let_def split: option.splits sum.splits)
next
  case False
  then show ?thesis by (simp add: updateTodo_def)
qed

subsection \<open>The record in the answer to a create request\<close>

text \<open>
  For every successful create, the encoded record carries the key in the hexadecimal form
  that \<^verbatim>\<open>ObjectIdHex\<close> reads back, and carries the time under \<^verbatim>\<open>CreatedAt\<close> in a form
  that never has the shape \<^verbatim>\<open>YYYY-MM-DD HH:MM:SS\<close>; there is no member \<^verbatim>\<open>createdAt\<close>.
\<close>

lemma createTodo_record_encoding:
  assumes "createTodo e st r = Returned (Some rsp) st'"
    and "status rsp = StatusCreated"
    and "validTime (now e)"
    and "marshal (payload rsp) = Some j"
  shows "\<exists>d k s. member j ''data'' = Some d \<and>
           member d ''ID'' = Some (JString k) \<and> IsObjectIdHex k \<and>
           ObjectIdHex k =
             Some (fst (NewObjectId (unixNow e) (machineId e) (processId e)
                          (objectIdCounter st))) \<and>
           member d ''CreatedAt'' = Some (JString s) \<and> \<not> matchesLayout s \<and>
           member d ''createdAt'' = None"
proof -
  let ?k = "fst (NewObjectId (unixNow e) (machineId e) (processId e) (objectIdCounter st))"
  from assms(1,2) have
    "\<exists>t. Decode r = Inr t \<and> payload rsp =
          M [(''message'', FString ''Todo created successfully''),
             (''data'', FTodoModel \<lparr>ID = ?k, Title = todo_Title t, Completed = False,
                                    CreatedAt = now e\<rparr>)]"
    by (auto simp: createTodo_def Insert_def Let_def
        split: sum.splits if_splits prod.splits option.splits)
  then obtain t :: todo where
    p: "payload rsp =
          M [(''message'', FString ''Todo created successfully''),
             (''data'', FTodoModel \<lparr>ID = ?k, Title = todo_Title t, Completed = False,
                                    CreatedAt = now e\<rparr>)]"
    by blast
  from assms(4) p obtain s where
    s: "MarshalJSON_Time (now e) = Some s" and
    j: "j = JObject [(''message'', JString ''Todo created successfully''),
                     (''data'', JObject [(''ID'', JString (EncodeToString ?k)),
                                         (''Title'', JString (todo_Title t)),
                                         (''Completed'', JBool False),
                                         (''CreatedAt'', JString s)])]"
    by (auto simp: marshal_todoModel_def split: option.splits)
  have l: "length ?k = 12" by (rule length_NewObjectId)
  from MarshalJSON_Time_not_layout [OF assms(3) s] have n: "\<not> matchesLayout s" .
  from IsObjectIdHex_Hex [OF l] ObjectIdHex_Hex [OF l] n show ?thesis
    by (simp add: j Hex_def)
qed

subsection \<open>Concrete strings used by the examples\<close>

lemma TrimSpace_xyz: "TrimSpace '' xyz '' = ''xyz''"
  by code_simp

lemma not_hex_xyz: "\<not> IsObjectIdHex ''xyz''"
  by (simp add: IsObjectIdHex_def)

lemma IsObjectIdHex_example_hex: "IsObjectIdHex ''6ae52f80010203123400002a''"
  by (simp add: IsObjectIdHex_def fromHexChar_def)

lemma TrimSpace_example_hex:
  "TrimSpace ''6ae52f80010203123400002a'' = ''6ae52f80010203123400002a''"
  by code_simp

lemma ObjectIdHex_example_hex: "ObjectIdHex ''6ae52f80010203123400002a'' = Some example_key"
  by (simp add: ObjectIdHex_def fromHexChar_def example_key_def)

lemma NewObjectId_example: "NewObjectId 1793404800 (1, 2, 3) 4660 41 = (example_key, 42)"
  by (simp add: NewObjectId_def example_key_def)

lemma TrimSpace_blank: "TrimSpace '' '' = []"
  by code_simp

lemma Update_example:
  "Update example_env example_key ''buy oat milk'' True example_state =
     (None, \<lparr>docs = [example_doc\<lparr>Title := ''buy oat milk'', Completed := True\<rparr>],
             calls = [CallUpdate example_key ''buy oat milk'' True], objectIdCounter = 42\<rparr>)"
  by (simp add: Update_def example_env_def example_state_def example_doc_def)

lemma digits_small: "n < 10 \<Longrightarrow> digits n = [char_of (48 + n)]"
  by (subst digits.simps) simp

lemma digits_large: "10 \<le> n \<Longrightarrow> digits n = digits (n div 10) @ [char_of (48 + n mod 10)]"
  by (subst digits.simps) simp

lemma digit_chars:
  "char_of (48::nat) = CHR ''0''" "char_of (49::nat) = CHR ''1''" "char_of (50::nat) = CHR ''2''"
  "char_of (51::nat) = CHR ''3''" "char_of (52::nat) = CHR ''4''" "char_of (53::nat) = CHR ''5''"
  "char_of (54::nat) = CHR ''6''" "char_of (55::nat) = CHR ''7''" "char_of (56::nat) = CHR ''8''"
  "char_of (57::nat) = CHR ''9''"
  by code_simp+

lemma Format_example: "Format example_time = ''2026-10-31 09:05:00''"
  by (simp add: Format_def example_time_def appendInt_def digits_small digits_large digit_chars)

lemma Format_bson_example: "Format (bsonTime example_time) = ''2026-10-31 09:05:00''"
  by (simp add: Format_def bsonTime_def example_time_def appendInt_def digits_small digits_large
      digit_chars)

lemma MarshalJSON_example:
  "MarshalJSON_Time example_time = Some ''2026-10-31T09:05:00.123456789+05:30''"
  by (simp add: MarshalJSON_Time_def example_time_def appendInt_def digits_small digits_large
      fraction_def zone_def dropTrailingZeros_def Let_def digit_chars)

lemma validTime_example: "validTime (bsonTime example_time)"
  by (simp add: validTime_def bsonTime_def example_time_def)

lemma not_layout_example: "\<not> matchesLayout ''2026-10-31T09:05:00.123456789+05:30''"
  by (simp add: matchesLayout_def)

lemma layout_example: "matchesLayout ''2026-10-31 09:05:00''"
  by (simp add: matchesLayout_def isDigit_def)

lemma Hex_example: "Hex example_key = ''6ae52f80010203123400002a''"
  by (simp add: Hex_def example_key_def hextable_def drop_bit_eq_div)

lemma getAllTodo_example:
  "getAllTodo example_env example_state =
     Returned
       (Some \<lparr>status = 200,
              payload = M [(''data'', FTodoList (Slice
                [\<lparr>todo_ID = ''6ae52f80010203123400002a'', todo_Title = ''buy milk'',
                  todo_Completed = False, todo_CreatedAt = ''2026-10-31 09:05:00''\<rparr>]))]\<rparr>)
       \<lparr>docs = [example_doc], calls = [CallFindAll], objectIdCounter = 42\<rparr>"
  by (simp add: getAllTodo_def Find_All_def Let_def example_env_def example_state_def
      example_doc_def Hex_example Format_bson_example)

lemma createTodo_example:
  "createTodo example_env empty_state
     \<lparr>URLParam_id = [],
      Decode = Inr \<lparr>todo_ID = ''ffffffffffffffffffffffff'', todo_Title = ''buy milk'',
                    todo_Completed = True, todo_CreatedAt = ''1999-01-01 00:00:00''\<rparr>\<rparr> =
   Returned
     (Some \<lparr>status = 201,
            payload = M [(''message'', FString ''Todo created successfully''),
                         (''data'', FTodoModel \<lparr>ID = example_key, Title = ''buy milk'',
                                                Completed = False,
                                                CreatedAt = example_time\<rparr>)]\<rparr>)
     \<lparr>docs = [example_doc],
      calls = [CallInsert \<lparr>ID = example_key, Title = ''buy milk'', Completed = False,
                           CreatedAt = example_time\<rparr>],
      objectIdCounter = 42\<rparr>"
  by (simp add: createTodo_def example_env_def empty_state_def example_doc_def
      NewObjectId_example Insert_def Let_def)

section \<open>The claims\<close>

text \<open>
  C7.  A delete or update request whose path id, after \<^verbatim>\<open>strings.TrimSpace\<close>, is not a
  well-formed key is answered with 400 and the message "Invalid id", and the state comes
  back as it was: no operation was sent to the collection.
\<close>

theorem C7_invalid_id:
  assumes "\<not> IsObjectIdHex (TrimSpace (URLParam_id r))"
  shows "deleteTodo e st r =
           Returned (Some \<lparr>status = StatusBadRequest,
                           payload = M [(''message'', FString ''Invalid id'')]\<rparr>) st
         \<and> updateTodo e st r =
           Returned (Some \<lparr>status = StatusBadRequest,
                           payload = M [(''message'', FString ''Invalid id'')]\<rparr>) st"
  using assms by (simp add: deleteTodo_def updateTodo_def)

theorem C7_invalid_id_witness:
  "\<not> IsObjectIdHex (TrimSpace '' xyz '')
   \<and> deleteTodo
        \<lparr>now = \<lparr>Year = 2026, Month = 10, Day = 31, Hour = 9, Minute = 5, Second = 0,
                 Nanosecond = 0, ZoneOffset = 0\<rparr>,
         unixNow = 1793437500, machineId = (1, 2, 3), processId = 4660, fault = None\<rparr>
        \<lparr>docs = [], calls = [], objectIdCounter = 0\<rparr>
        \<lparr>URLParam_id = '' xyz '', Decode = Inl (ErrOther ''EOF'')\<rparr> =
      Returned (Some \<lparr>status = 400, payload = M [(''message'', FString ''Invalid id'')]\<rparr>)
        \<lparr>docs = [], calls = [], objectIdCounter = 0\<rparr>
   \<and> updateTodo
        \<lparr>now = \<lparr>Year = 2026, Month = 10, Day = 31, Hour = 9, Minute = 5, Second = 0,
                 Nanosecond = 0, ZoneOffset = 0\<rparr>,
         unixNow = 1793437500, machineId = (1, 2, 3), processId = 4660, fault = None\<rparr>
        \<lparr>docs = [], calls = [], objectIdCounter = 0\<rparr>
        \<lparr>URLParam_id = '' xyz '', Decode = Inl (ErrOther ''EOF'')\<rparr> =
      Returned (Some \<lparr>status = 400, payload = M [(''message'', FString ''Invalid id'')]\<rparr>)
        \<lparr>docs = [], calls = [], objectIdCounter = 0\<rparr>"
  using C7_invalid_id [of "\<lparr>URLParam_id = '' xyz '', Decode = Inl (ErrOther ''EOF'')\<rparr>"]
  by (simp add: TrimSpace_xyz not_hex_xyz)

text \<open>
  C8.  An update request that passes the check of its id, the decoding of its body, the
  check of its title and the write to the store makes no call of \<^verbatim>\<open>rnd.JSON\<close>: the
  handler returns without having written a response.
\<close>

theorem C8_update_writes_nothing:
  assumes "IsObjectIdHex (TrimSpace (URLParam_id r))"
    and "ObjectIdHex (TrimSpace (URLParam_id r)) = Some key"
    and "Decode r = Inr t"
    and "todo_Title t \<noteq> []"
    and "Update e key (todo_Title t) (todo_Completed t) st = (None, st')"
  shows "updateTodo e st r = Returned None st'"
  using assms by (simp add: updateTodo_def)

theorem C8_update_writes_nothing_witness:
  "updateTodo example_env example_state
     \<lparr>URLParam_id = ''6ae52f80010203123400002a'',
      Decode = Inr \<lparr>todo_ID = [], todo_Title = ''buy oat milk'', todo_Completed = True,
                    todo_CreatedAt = []\<rparr>\<rparr> =
   Returned None
     \<lparr>docs = [example_doc\<lparr>Title := ''buy oat milk'', Completed := True\<rparr>],
      calls = [CallUpdate example_key ''buy oat milk'' True], objectIdCounter = 42\<rparr>"
  by (rule C8_update_writes_nothing [where key = example_key
        and t = "\<lparr>todo_ID = [], todo_Title = ''buy oat milk'', todo_Completed = True,
                   todo_CreatedAt = []\<rparr>"])
     (simp_all add: TrimSpace_example_hex IsObjectIdHex_example_hex ObjectIdHex_example_hex
        Update_example)

text \<open>
  C5, as the code has it.  A create request whose body fails to decode is answered with
  status 102 and the decoding error itself, and the state comes back as it was.  An update
  request is answered so when its path id is a well-formed key; \<^verbatim>\<open>updateTodo\<close> checks the
  id before it reads the body.
\<close>

theorem C5_decode_error:
  assumes "Decode r = Inl err"
  shows "createTodo e st r =
           Returned (Some \<lparr>status = StatusProcessing, payload = E err\<rparr>) st
         \<and> (IsObjectIdHex (TrimSpace (URLParam_id r)) \<longrightarrow>
              updateTodo e st r =
                Returned (Some \<lparr>status = StatusProcessing, payload = E err\<rparr>) st)"
  using assms by (simp add: createTodo_def updateTodo_def)

theorem C5_decode_error_witness:
  "createTodo example_env example_state
     \<lparr>URLParam_id = ''6ae52f80010203123400002a'', Decode = Inl (ErrOther ''unexpected EOF'')\<rparr> =
     Returned (Some \<lparr>status = 102, payload = E (ErrOther ''unexpected EOF'')\<rparr>) example_state
   \<and> IsObjectIdHex (TrimSpace ''6ae52f80010203123400002a'')
   \<and> updateTodo example_env example_state
     \<lparr>URLParam_id = ''6ae52f80010203123400002a'', Decode = Inl (ErrOther ''unexpected EOF'')\<rparr> =
     Returned (Some \<lparr>status = 102, payload = E (ErrOther ''unexpected EOF'')\<rparr>) example_state"
  using C5_decode_error
    [of "\<lparr>URLParam_id = ''6ae52f80010203123400002a'',
          Decode = Inl (ErrOther ''unexpected EOF'')\<rparr>"
        "ErrOther ''unexpected EOF''" example_env example_state]
  by (simp add: TrimSpace_example_hex IsObjectIdHex_example_hex)

text \<open>
  The claim as the spec states it fails for an update request whose body does not decode
  and whose path id is malformed: the answer is 400 "Invalid id", not 102.
\<close>

theorem C5_counterexample:
  "Decode \<lparr>URLParam_id = '' xyz '', Decode = Inl (ErrOther ''unexpected EOF'')\<rparr> =
     Inl (ErrOther ''unexpected EOF'')
   \<and> updateTodo example_env example_state
        \<lparr>URLParam_id = '' xyz '', Decode = Inl (ErrOther ''unexpected EOF'')\<rparr> =
      Returned (Some \<lparr>status = 400, payload = M [(''message'', FString ''Invalid id'')]\<rparr>)
        example_state
   \<and> updateTodo example_env example_state
        \<lparr>URLParam_id = '' xyz '', Decode = Inl (ErrOther ''unexpected EOF'')\<rparr> \<noteq>
      Returned (Some \<lparr>status = 102, payload = E (ErrOther ''unexpected EOF'')\<rparr>)
        example_state"
  by (simp add: updateTodo_def TrimSpace_xyz not_hex_xyz)

text \<open>
  C3, as the code has it.  The handlers compare the decoded title with the empty string
  and nothing else.  A create request whose decoded title is the empty string is answered
  with 400 "Title is required", and the state comes back as it was; so is an update
  request, when its path id is a well-formed key.
\<close>

theorem C3_empty_title:
  assumes "Decode r = Inr t" and "todo_Title t = []"
  shows "createTodo e st r =
           Returned (Some \<lparr>status = StatusBadRequest,
                           payload = M [(''message'', FString ''Title is required'')]\<rparr>) st
         \<and> (IsObjectIdHex (TrimSpace (URLParam_id r)) \<longrightarrow>
              updateTodo e st r =
                Returned (Some \<lparr>status = StatusBadRequest,
                                payload = M [(''message'', FString ''Title is required'')]\<rparr>) st)"
  using assms by (simp add: createTodo_def updateTodo_def)

theorem C3_empty_title_witness:
  "createTodo example_env example_state
     \<lparr>URLParam_id = ''6ae52f80010203123400002a'',
      Decode = Inr \<lparr>todo_ID = [], todo_Title = [], todo_Completed = True,
                    todo_CreatedAt = []\<rparr>\<rparr> =
     Returned (Some \<lparr>status = 400,
                     payload = M [(''message'', FString ''Title is required'')]\<rparr>)
       example_state
   \<and> IsObjectIdHex (TrimSpace ''6ae52f80010203123400002a'')
   \<and> updateTodo example_env example_state
     \<lparr>URLParam_id = ''6ae52f80010203123400002a'',
      Decode = Inr \<lparr>todo_ID = [], todo_Title = [], todo_Completed = True,
                    todo_CreatedAt = []\<rparr>\<rparr> =
     Returned (Some \<lparr>status = 400,
                     payload = M [(''message'', FString ''Title is required'')]\<rparr>)
       example_state"
  using C3_empty_title
    [of "\<lparr>URLParam_id = ''6ae52f80010203123400002a'',
          Decode = Inr \<lparr>todo_ID = [], todo_Title = [], todo_Completed = True,
                        todo_CreatedAt = []\<rparr>\<rparr>"
        "\<lparr>todo_ID = [], todo_Title = [], todo_Completed = True, todo_CreatedAt = []\<rparr>"
        example_env example_state]
  by (simp add: TrimSpace_example_hex IsObjectIdHex_example_hex)

text \<open>
  The claim as the spec states it fails for a title of white space only: trimming would
  leave nothing of the title \<open>'' ''\<close>, yet the record is inserted and the answer is 201.
  It also fails for an update request with an empty title and a malformed path id, which
  is answered "Invalid id".
\<close>

theorem C3_counterexample:
  "TrimSpace '' '' = []
   \<and> createTodo example_env empty_state
        \<lparr>URLParam_id = [],
         Decode = Inr \<lparr>todo_ID = [], todo_Title = '' '', todo_Completed = False,
                       todo_CreatedAt = []\<rparr>\<rparr> =
      Returned
        (Some \<lparr>status = 201,
               payload = M [(''message'', FString ''Todo created successfully''),
                            (''data'', FTodoModel \<lparr>ID = example_key, Title = '' '',
                                                   Completed = False,
                                                   CreatedAt = example_time\<rparr>)]\<rparr>)
        \<lparr>docs = [\<lparr>ID = example_key, Title = '' '', Completed = False,
                  CreatedAt = bsonTime example_time\<rparr>],
         calls = [CallInsert \<lparr>ID = example_key, Title = '' '', Completed = False,
                              CreatedAt = example_time\<rparr>],
         objectIdCounter = 42\<rparr>
   \<and> updateTodo example_env example_state
        \<lparr>URLParam_id = '' xyz '',
         Decode = Inr \<lparr>todo_ID = [], todo_Title = [], todo_Completed = False,
                       todo_CreatedAt = []\<rparr>\<rparr> =
      Returned (Some \<lparr>status = 400, payload = M [(''message'', FString ''Invalid id'')]\<rparr>)
        example_state"
  by (simp add: TrimSpace_blank createTodo_def example_env_def empty_state_def
      NewObjectId_example Insert_def Let_def updateTodo_def TrimSpace_xyz not_hex_xyz)

text \<open>
  C9.  When the collection is empty and the query succeeds, \<^verbatim>\<open>getAllTodo\<close> answers 200
  with \<^verbatim>\<open>data\<close> bound to the empty, non-nil slice \<^verbatim>\<open>[]todo{}\<close>, which encoding/json
  writes as the array \<^verbatim>\<open>[]\<close>: the member is present and is not \<^verbatim>\<open>null\<close>.
\<close>

theorem C9_empty_list:
  assumes "docs st = []" and "fault e = None"
  shows "getAllTodo e st =
           Returned (Some \<lparr>status = StatusOK,
                           payload = M [(''data'', FTodoList (Slice []))]\<rparr>)
             (st\<lparr>calls := calls st @ [CallFindAll]\<rparr>)
         \<and> marshal (M [(''data'', FTodoList (Slice []))]) =
             Some (JObject [(''data'', JArray [])])"
  using assms by (simp add: getAllTodo_def Find_All_def Let_def)

theorem C9_empty_list_witness:
  "getAllTodo example_env empty_state =
     Returned (Some \<lparr>status = 200, payload = M [(''data'', FTodoList (Slice []))]\<rparr>)
       \<lparr>docs = [], calls = [CallFindAll], objectIdCounter = 41\<rparr>
   \<and> marshal (M [(''data'', FTodoList (Slice []))]) = Some (JObject [(''data'', JArray [])])
   \<and> member (JObject [(''data'', JArray [])]) ''data'' = Some (JArray [])"
  using C9_empty_list [of empty_state example_env]
  by (simp add: empty_state_def example_env_def)

text \<open>
  C2, as the code has it.  \<^verbatim>\<open>deleteTodo\<close> does not look the id up itself; it answers by
  the error that \<^verbatim>\<open>RemoveId\<close> returns.  For a well-formed id and a store that answers,
  an id that matches a record is answered with 200 "Todo deleted successfully" and the
  record is removed; an id that matches no record makes \<^verbatim>\<open>RemoveId\<close> return
  \<^verbatim>\<open>ErrNotFound\<close>, and the answer is 400 "Failed to delete todo" with that error, the
  documents unchanged.
\<close>

theorem C2_delete_by_store_result:
  assumes "IsObjectIdHex (TrimSpace (URLParam_id r))"
    and "ObjectIdHex (TrimSpace (URLParam_id r)) = Some key"
    and "fault e = None"
  shows "deleteTodo e st r =
          (if \<exists>d \<in> set (docs st). ID d = key
           then Returned
                  (Some \<lparr>status = StatusOK,
                         payload = M [(''message'', FString ''Todo deleted successfully'')]\<rparr>)
                  (st\<lparr>calls := calls st @ [CallRemoveId key],
                       docs := removeFirst key (docs st)\<rparr>)
           else Returned
                  (Some \<lparr>status = StatusBadRequest,
                         payload = M [(''message'', FString ''Failed to delete todo''),
                                      (''error'', FError ErrNotFound)]\<rparr>)
                  (st\<lparr>calls := calls st @ [CallRemoveId key]\<rparr>))"
  using assms by (simp add: deleteTodo_def RemoveId_def Let_def)

theorem C2_delete_by_store_result_witness:
  "deleteTodo example_env example_state
     \<lparr>URLParam_id = ''6ae52f80010203123400002a'', Decode = Inl (ErrOther ''EOF'')\<rparr> =
   Returned (Some \<lparr>status = 200,
                   payload = M [(''message'', FString ''Todo deleted successfully'')]\<rparr>)
     \<lparr>docs = [], calls = [CallRemoveId example_key], objectIdCounter = 42\<rparr>"
  using C2_delete_by_store_result
    [of "\<lparr>URLParam_id = ''6ae52f80010203123400002a'', Decode = Inl (ErrOther ''EOF'')\<rparr>"
        example_key example_env example_state]
  by (simp add: TrimSpace_example_hex IsObjectIdHex_example_hex ObjectIdHex_example_hex
      example_env_def example_state_def example_doc_def)

text \<open>
  The claim as the spec states it fails on the empty collection: the well-formed id
  matches no record, and the answer is 400 "Failed to delete todo", not the 200 given
  for the same id when the record exists.
\<close>

theorem C2_counterexample:
  "IsObjectIdHex (TrimSpace ''6ae52f80010203123400002a'')
   \<and> docs empty_state = []
   \<and> deleteTodo example_env empty_state
        \<lparr>URLParam_id = ''6ae52f80010203123400002a'', Decode = Inl (ErrOther ''EOF'')\<rparr> =
      Returned (Some \<lparr>status = 400,
                      payload = M [(''message'', FString ''Failed to delete todo''),
                                   (''error'', FError ErrNotFound)]\<rparr>)
        \<lparr>docs = [], calls = [CallRemoveId example_key], objectIdCounter = 41\<rparr>"
  by (simp add: deleteTodo_def RemoveId_def Let_def TrimSpace_example_hex
      IsObjectIdHex_example_hex ObjectIdHex_example_hex example_env_def empty_state_def)

text \<open>
  C4.  A successful update sends one \<^verbatim>\<open>$set\<close> of the title and the completed flag of
  the request for the key of the path.  Every stored record keeps its identifier and its
  createdAt; a record is unchanged, or it is the record with that key and differs from
  what it was in its title and completed flag only.
\<close>

theorem C4_update_frame:
  assumes "updateTodo e st r = Returned None st'"
  shows "\<exists>key t. ObjectIdHex (TrimSpace (URLParam_id r)) = Some key \<and> Decode r = Inr t \<and>
           calls st' = calls st @ [CallUpdate key (todo_Title t) (todo_Completed t)] \<and>
           list_all2 (\<lambda>d d'. ID d' = ID d \<and> CreatedAt d' = CreatedAt d \<and>
                        (d' = d \<or>
                         ID d = key \<and>
                         d' = d\<lparr>Title := todo_Title t, Completed := todo_Completed t\<rparr>))
             (docs st) (docs st')"
  using assms
  by (auto simp: updateTodo_def Update_def Let_def setFirst_frame
      split: if_splits sum.splits option.splits)

theorem C4_update_frame_witness:
  "updateTodo example_env example_state
     \<lparr>URLParam_id = ''6ae52f80010203123400002a'',
      Decode = Inr \<lparr>todo_ID = ''ffffffffffffffffffffffff'', todo_Title = ''buy oat milk'',
                    todo_Completed = True, todo_CreatedAt = ''1999-01-01 00:00:00''\<rparr>\<rparr> =
     Returned None
       \<lparr>docs = [\<lparr>ID = example_key, Title = ''buy oat milk'', Completed = True,
                 CreatedAt = bsonTime example_time\<rparr>],
        calls = [CallUpdate example_key ''buy oat milk'' True], objectIdCounter = 42\<rparr>
   \<and> list_all2 (\<lambda>d d'. ID d' = ID d \<and> CreatedAt d' = CreatedAt d \<and>
                  (d' = d \<or>
                   ID d = example_key \<and>
                   d' = d\<lparr>Title := ''buy oat milk'', Completed := True\<rparr>))
       (docs example_state)
       [\<lparr>ID = example_key, Title = ''buy oat milk'', Completed = True,
         CreatedAt = bsonTime example_time\<rparr>]"
proof -
  let ?r = "\<lparr>URLParam_id = ''6ae52f80010203123400002a'',
      Decode = Inr \<lparr>todo_ID = ''ffffffffffffffffffffffff'', todo_Title = ''buy oat milk'',
                    todo_Completed = True, todo_CreatedAt = ''1999-01-01 00:00:00''\<rparr>\<rparr>"
  let ?st' = "\<lparr>docs = [\<lparr>ID = example_key, Title = ''buy oat milk'', Completed = True,
                 CreatedAt = bsonTime example_time\<rparr>],
        calls = [CallUpdate example_key ''buy oat milk'' True], objectIdCounter = 42\<rparr>"
  have run: "updateTodo example_env example_state ?r = Returned None ?st'"
    by (simp add: updateTodo_def TrimSpace_example_hex IsObjectIdHex_example_hex
        ObjectIdHex_example_hex Update_example example_doc_def)
  from C4_update_frame [OF run] show ?thesis
    using run by (simp add: TrimSpace_example_hex ObjectIdHex_example_hex)
qed

text \<open>
  C6.  When the query succeeds, \<^verbatim>\<open>getAllTodo\<close> answers with one wire record for each
  stored record, in the same order: the identifier in its hexadecimal form (from which
  \<^verbatim>\<open>ObjectIdHex\<close> gives back a twelve-byte key), the title and the completed flag
  unchanged, and createdAt formatted by the layout \<^verbatim>\<open>2006-01-02 15:04:05\<close>, which has
  the shape \<^verbatim>\<open>YYYY-MM-DD HH:MM:SS\<close> for every time whose year has four digits.  The
  records are encoded under the tags of \<^verbatim>\<open>todo\<close>.
\<close>

theorem C6_list_wire_records:
  assumes "getAllTodo e st = Returned (Some rsp) st'" and "status rsp = StatusOK"
  shows "\<exists>ts. payload rsp = M [(''data'', FTodoList (Slice ts))] \<and>
           marshal (payload rsp) = Some (JObject [(''data'', JArray (map marshal_todo ts))]) \<and>
           list_all2
             (\<lambda>d w. todo_ID w = Hex (ID d) \<and> todo_Title w = Title d \<and>
                    todo_Completed w = Completed d \<and>
                    todo_CreatedAt w = Format (CreatedAt d) \<and>
                    (length (ID d) = 12 \<longrightarrow> ObjectIdHex (todo_ID w) = Some (ID d)) \<and>
                    (validTime (CreatedAt d) \<and> 0 \<le> Year (CreatedAt d) \<and>
                     Year (CreatedAt d) < 10000 \<longrightarrow> matchesLayout (todo_CreatedAt w)))
             (docs st) ts"
proof -
  let ?w = "\<lambda>t. \<lparr>todo_ID = Hex (ID t), todo_Title = Title t, todo_Completed = Completed t,
                   todo_CreatedAt = Format (CreatedAt t)\<rparr>"
  from assms have p: "payload rsp = M [(''data'', FTodoList (Slice (map ?w (docs st))))]"
    by (auto simp: getAllTodo_def Find_All_def Let_def range_todos_Slice split: option.splits)
  have "list_all2
          (\<lambda>d w. todo_ID w = Hex (ID d) \<and> todo_Title w = Title d \<and>
                 todo_Completed w = Completed d \<and>
                 todo_CreatedAt w = Format (CreatedAt d) \<and>
                 (length (ID d) = 12 \<longrightarrow> ObjectIdHex (todo_ID w) = Some (ID d)) \<and>
                 (validTime (CreatedAt d) \<and> 0 \<le> Year (CreatedAt d) \<and>
                  Year (CreatedAt d) < 10000 \<longrightarrow> matchesLayout (todo_CreatedAt w)))
          (docs st) (map ?w (docs st))"
    by (simp add: list_all2_map2 list_all2_refl ObjectIdHex_Hex Format_matchesLayout)
  with p show ?thesis by simp
qed

theorem C6_list_wire_records_witness:
  "getAllTodo example_env example_state =
     Returned
       (Some \<lparr>status = 200,
              payload = M [(''data'', FTodoList (Slice
                [\<lparr>todo_ID = ''6ae52f80010203123400002a'', todo_Title = ''buy milk'',
                  todo_Completed = False, todo_CreatedAt = ''2026-10-31 09:05:00''\<rparr>]))]\<rparr>)
       \<lparr>docs = [example_doc], calls = [CallFindAll], objectIdCounter = 42\<rparr>
   \<and> docs example_state = [example_doc]
   \<and> length (ID example_doc) = 12
   \<and> validTime (CreatedAt example_doc)
   \<and> 0 \<le> Year (CreatedAt example_doc) \<and> Year (CreatedAt example_doc) < 10000
   \<and> ObjectIdHex ''6ae52f80010203123400002a'' = Some (ID example_doc)
   \<and> matchesLayout ''2026-10-31 09:05:00''"
proof -
  have t: "length (ID example_doc) = 12" "validTime (CreatedAt example_doc)"
    "0 \<le> Year (CreatedAt example_doc)" "Year (CreatedAt example_doc) < 10000"
    by (simp_all add: example_doc_def example_key_def validTime_example)
       (simp_all add: bsonTime_def example_time_def)
  have d: "docs example_state = [example_doc]"
    by (simp add: example_state_def)
  from C6_list_wire_records [OF getAllTodo_example] t
  have k: "ObjectIdHex ''6ae52f80010203123400002a'' = Some (ID example_doc) \<and>
           matchesLayout ''2026-10-31 09:05:00''"
    by (auto simp: d)
  show ?thesis
    using getAllTodo_example d t k by blast
qed

text \<open>
  C10.  A successful create stores and returns a record whose completed flag is false,
  whose identifier is the one \<^verbatim>\<open>NewObjectId\<close> makes and whose createdAt is the clock's
  time (kept to the millisecond in the store); the id, completed and createdAt members of
  the request make no difference to what \<^verbatim>\<open>createTodo\<close> does.
\<close>

theorem C10_create_server_side:
  assumes "createTodo e st r = Returned (Some rsp) st'" and "status rsp = StatusCreated"
  shows "\<exists>t. Decode r = Inr t \<and>
           payload rsp =
             M [(''message'', FString ''Todo created successfully''),
                (''data'', FTodoModel
                   \<lparr>ID = fst (NewObjectId (unixNow e) (machineId e) (processId e)
                                (objectIdCounter st)),
                    Title = todo_Title t, Completed = False, CreatedAt = now e\<rparr>)] \<and>
           docs st' = docs st @
             [\<lparr>ID = fst (NewObjectId (unixNow e) (machineId e) (processId e)
                           (objectIdCounter st)),
               Title = todo_Title t, Completed = False, CreatedAt = bsonTime (now e)\<rparr>] \<and>
           (\<forall>i c a. createTodo e st
                       (r\<lparr>Decode := Inr (t\<lparr>todo_ID := i, todo_Completed := c,
                                            todo_CreatedAt := a\<rparr>)\<rparr>) =
                     createTodo e st r)"
  using assms
  by (auto simp: createTodo_def Insert_def Let_def
      split: sum.splits if_splits prod.splits option.splits)

theorem C10_create_server_side_witness:
  "createTodo example_env empty_state
     \<lparr>URLParam_id = [],
      Decode = Inr \<lparr>todo_ID = ''ffffffffffffffffffffffff'', todo_Title = ''buy milk'',
                    todo_Completed = True, todo_CreatedAt = ''1999-01-01 00:00:00''\<rparr>\<rparr> =
   Returned
     (Some \<lparr>status = 201,
            payload = M [(''message'', FString ''Todo created successfully''),
                         (''data'', FTodoModel \<lparr>ID = example_key, Title = ''buy milk'',
                                                Completed = False,
                                                CreatedAt = example_time\<rparr>)]\<rparr>)
     \<lparr>docs = [example_doc],
      calls = [CallInsert \<lparr>ID = example_key, Title = ''buy milk'', Completed = False,
                           CreatedAt = example_time\<rparr>],
      objectIdCounter = 42\<rparr>
   \<and> createTodo example_env empty_state
     \<lparr>URLParam_id = [],
      Decode = Inr \<lparr>todo_ID = [], todo_Title = ''buy milk'',
                    todo_Completed = False, todo_CreatedAt = []\<rparr>\<rparr> =
     createTodo example_env empty_state
     \<lparr>URLParam_id = [],
      Decode = Inr \<lparr>todo_ID = ''ffffffffffffffffffffffff'', todo_Title = ''buy milk'',
                    todo_Completed = True, todo_CreatedAt = ''1999-01-01 00:00:00''\<rparr>\<rparr>"
proof -
  from C10_create_server_side [OF createTodo_example] have
    "\<forall>i c a. createTodo example_env empty_state
       \<lparr>URLParam_id = [],
        Decode = Inr \<lparr>todo_ID = i, todo_Title = ''buy milk'', todo_Completed = c,
                      todo_CreatedAt = a\<rparr>\<rparr> =
      createTodo example_env empty_state
       \<lparr>URLParam_id = [],
        Decode = Inr \<lparr>todo_ID = ''ffffffffffffffffffffffff'', todo_Title = ''buy milk'',
                      todo_Completed = True, todo_CreatedAt = ''1999-01-01 00:00:00''\<rparr>\<rparr>"
    by simp
  then show ?thesis
    using createTodo_example by blast
qed

text \<open>
  C1.  The record in the 201 envelope is the \<^verbatim>\<open>todoModel\<close> itself.  Its identifier is
  written as the hexadecimal string that \<^verbatim>\<open>ObjectIdHex\<close> reads back, but its time is
  written by \<^verbatim>\<open>Time.MarshalJSON\<close>, under the name \<^verbatim>\<open>CreatedAt\<close>, and not by the
  layout \<^verbatim>\<open>2006-01-02 15:04:05\<close> that \<^verbatim>\<open>getAllTodo\<close> applies to the same record
  (for every successful create: \<open>createTodo_record_encoding\<close>).  At the example
  request:
\<close>

theorem C1_created_record_rendering:
  "createTodo example_env empty_state
     \<lparr>URLParam_id = [],
      Decode = Inr \<lparr>todo_ID = [], todo_Title = ''buy milk'', todo_Completed = False,
                    todo_CreatedAt = []\<rparr>\<rparr> =
   Returned
     (Some \<lparr>status = 201,
            payload = M [(''message'', FString ''Todo created successfully''),
                         (''data'', FTodoModel \<lparr>ID = example_key, Title = ''buy milk'',
                                                Completed = False,
                                                CreatedAt = example_time\<rparr>)]\<rparr>)
     \<lparr>docs = [example_doc],
      calls = [CallInsert \<lparr>ID = example_key, Title = ''buy milk'', Completed = False,
                           CreatedAt = example_time\<rparr>],
      objectIdCounter = 42\<rparr>
   \<and> marshal_field (FTodoModel \<lparr>ID = example_key, Title = ''buy milk'', Completed = False,
                                 CreatedAt = example_time\<rparr>) =
       Some (JObject [(''ID'', JString ''6ae52f80010203123400002a''),
                      (''Title'', JString ''buy milk''),
                      (''Completed'', JBool False),
                      (''CreatedAt'', JString ''2026-10-31T09:05:00.123456789+05:30'')])
   \<and> ObjectIdHex ''6ae52f80010203123400002a'' = Some example_key
   \<and> \<not> matchesLayout ''2026-10-31T09:05:00.123456789+05:30''
   \<and> Format example_time = ''2026-10-31 09:05:00''"
  by (simp add: createTodo_def example_env_def empty_state_def example_doc_def
      NewObjectId_example Insert_def Let_def marshal_todoModel_def MarshalJSON_example
      ObjectIdHex_example_hex not_layout_example Format_example)
     (simp add: Hex_example [unfolded Hex_def])

end
